theory Spec2Isabelle
  imports Main "HOL-Library.Char_ord" "HOL-Library.List_Lexorder" "HOL-Library.Multiset"
begin

section \<open>The object store\<close>

text \<open>
  The module \<^verbatim>\<open>argskwargs.py\<close> is about one class, \<^verbatim>\<open>Arguments\<close>, whose two slots
  \<^verbatim>\<open>args\<close> and \<^verbatim>\<open>kwargs\<close> refer to a tuple and a dict. Several properties of the
  module are about object identity (the same instance is returned, the stored containers
  are used without a copy, nothing stored is mutated), so objects live in an explicit
  store: a list of objects, an address being an index into it. Allocation appends, so an
  address below the length of the store is never reused.

  The values held by tuples and dicts are opaque to the module; they are a type
  variable \<open>'v\<close>, compared with HOL's equality.
\<close>

type_synonym addr = nat

datatype pyclass = Arguments | Subclass

text \<open>
  \<open>Object\<close> is a plain \<^verbatim>\<open>object()\<close>, \<open>Tuple\<close> and \<open>Dict\<close> are the two built-in
  containers (a dict as an association list in insertion order, its keys distinct), and
  \<open>Instance c a k\<close> is an instance whose dynamic type is \<open>c\<close>, with slot \<^verbatim>\<open>args\<close>
  referring to \<open>a\<close> and slot \<^verbatim>\<open>kwargs\<close> to \<open>k\<close>. \<open>Subclass\<close> stands for a class that
  derives from \<^verbatim>\<open>Arguments\<close> and inherits all its methods.

  Two more containers are built by the methods and dropped before they return:
  \<open>Pair x y\<close> is a tuple of two objects of the store, as line 111 builds, and
  \<open>ItemList\<close> is a list of items, as \<^verbatim>\<open>sorted\<close> returns in line 41. The store holds
  the instances and the containers; strings, numbers, truth values, iterators and
  generators are values of the model and not objects of the store.
\<close>

datatype 'v obj =
    Object
  | Tuple "'v list"
  | Dict "(string \<times> 'v) list"
  | Instance pyclass addr addr
  | Pair addr addr
  | ItemList "(string \<times> 'v) list"

type_synonym 'v heap = "'v obj list"

datatype error = TypeError | AttributeError

definition lookup :: "'v heap \<Rightarrow> addr \<Rightarrow> 'v obj option" where
  "lookup h a = (if a < length h then Some (h ! a) else None)"

definition alloc :: "'v heap \<Rightarrow> 'v obj \<Rightarrow> addr \<times> 'v heap" where
  "alloc h ob = (length h, h @ [ob])"

text \<open>
  Line 10: \<^verbatim>\<open>_yes_i_am_an_internal_call = object()\<close>. The module creates the sentinel
  when it is imported, before any other object of a program that uses it: it is the
  object at address 0 of \<open>module_heap\<close>.
\<close>

definition yes_i_am_an_internal_call :: addr where
  "yes_i_am_an_internal_call = 0"

definition module_heap :: "'v heap" where
  "module_heap = [Object]"

section \<open>Built-in operations on tuples and dicts\<close>

text \<open>\<^verbatim>\<open>d[k] = v\<close>: an existing key keeps its position, a new key goes last.\<close>

fun dict_setitem :: "(string \<times> 'v) list \<Rightarrow> string \<Rightarrow> 'v \<Rightarrow> (string \<times> 'v) list" where
  "dict_setitem [] k v = [(k, v)]"
| "dict_setitem ((k', v') # d) k v =
     (if k' = k then (k, v) # d else (k', v') # dict_setitem d k v)"

text \<open>\<^verbatim>\<open>d.update(other)\<close> stores the items of \<open>other\<close> one after the other.\<close>

fun dict_update :: "(string \<times> 'v) list \<Rightarrow> (string \<times> 'v) list \<Rightarrow> (string \<times> 'v) list" where
  "dict_update d [] = d"
| "dict_update d ((k, v) # other) = dict_update (dict_setitem d k v) other"

text \<open>
  \<^verbatim>\<open>d == e\<close> on two dicts: the same number of items, and every item of \<open>d\<close> is found
  in \<open>e\<close> under its key with an equal value.
\<close>

definition dict_eq :: "(string \<times> 'v) list \<Rightarrow> (string \<times> 'v) list \<Rightarrow> bool" where
  "dict_eq d e = (length d = length e \<and> list_all (\<lambda>(k, v). map_of e k = Some v) d)"

text \<open>
  \<^verbatim>\<open>x == y\<close> on two objects of the store. The comparison of the elements of a tuple
  starts with an identity test, so an object equals itself. A tuple equals a tuple with
  the same elements in the same order, a dict equals a dict with the same items, and
  objects of different built-in types are unequal. The model covers the objects that the
  slots of an instance built by \<open>argskwargs\<close> refer to (a tuple and a dict); an instance
  stored in a slot is compared by identity only.
\<close>

fun obj_eq :: "'v obj \<Rightarrow> 'v obj \<Rightarrow> bool" where
  "obj_eq (Tuple xs) (Tuple ys) = (xs = ys)"
| "obj_eq (Dict d) (Dict e) = dict_eq d e"
| "obj_eq _ _ = False"

definition py_eq :: "'v heap \<Rightarrow> addr \<Rightarrow> addr \<Rightarrow> bool" where
  "py_eq h x y =
     (x = y \<or>
      (case (lookup h x, lookup h y) of
         (Some ox, Some oy) \<Rightarrow> obj_eq ox oy
       | _ \<Rightarrow> False))"

text \<open>The contents of the tuple at an address; anything else cannot be used as one.\<close>

definition tuple_at :: "'v heap \<Rightarrow> addr \<Rightarrow> error + 'v list" where
  "tuple_at h a = (case lookup h a of Some (Tuple xs) \<Rightarrow> Inr xs | _ \<Rightarrow> Inl TypeError)"

definition dict_at :: "'v heap \<Rightarrow> addr \<Rightarrow> error + (string \<times> 'v) list" where
  "dict_at h a = (case lookup h a of Some (Dict d) \<Rightarrow> Inr d | _ \<Rightarrow> Inl TypeError)"

text \<open>
  \<^verbatim>\<open>x.copy()\<close> as lines 65 and 81 use it: a new dict with the items of \<open>x\<close>. A tuple
  and a plain object have no \<^verbatim>\<open>copy\<close> attribute; an instance has one, which without
  arguments returns the instance, whose \<^verbatim>\<open>update\<close> attribute is then missing. Both
  ways the statement pair ends in an AttributeError.
\<close>

definition dict_copy :: "'v heap \<Rightarrow> addr \<Rightarrow> error + addr \<times> 'v heap" where
  "dict_copy h x =
     (case lookup h x of
        Some (Dict d) \<Rightarrow> Inr (alloc h (Dict d))
      | _ \<Rightarrow> Inl AttributeError)"

text \<open>\<^verbatim>\<open>x.update(kwargs)\<close>: the dict at \<open>x\<close> is changed in place.\<close>

definition dict_update_inplace :: "'v heap \<Rightarrow> addr \<Rightarrow> (string \<times> 'v) list \<Rightarrow> error + 'v heap" where
  "dict_update_inplace h x kwargs =
     (case lookup h x of
        Some (Dict d) \<Rightarrow> Inr (h[x := Dict (dict_update d kwargs)])
      | _ \<Rightarrow> Inl AttributeError)"

text \<open>
  \<^verbatim>\<open>x + args\<close> with a tuple \<open>args\<close>: a new tuple when \<open>x\<close> is a tuple, a TypeError
  for every other object of the store.
\<close>

definition tuple_add :: "'v heap \<Rightarrow> addr \<Rightarrow> 'v list \<Rightarrow> error + addr \<times> 'v heap" where
  "tuple_add h x args =
     (case lookup h x of
        Some (Tuple xs) \<Rightarrow> Inr (alloc h (Tuple (xs @ args)))
      | _ \<Rightarrow> Inl TypeError)"

text \<open>\<^verbatim>\<open>', '.join(chunks)\<close>\<close>

fun join :: "string \<Rightarrow> string list \<Rightarrow> string" where
  "join sep [] = []"
| "join sep [x] = x"
| "join sep (x # y # ys) = x @ sep @ join sep (y # ys)"

text \<open>
  \<^verbatim>\<open>sorted(d.items())\<close>: the items are pairs of a key and a value, compared key first;
  the keys of a dict are distinct, so the values are never compared and the order is the
  order of the keys. Strings are ordered lexicographically by character code.
\<close>

definition sorted_items :: "(string \<times> 'v) list \<Rightarrow> (string \<times> 'v) list" where
  "sorted_items d = sort_key fst d"

text \<open>\<^verbatim>\<open>repr\<close> of an \<^verbatim>\<open>int\<close>: its decimal digits, after a minus sign when negative.\<close>

fun digits :: "nat \<Rightarrow> string" where
  "digits n =
     (if n < 10 then [''0123456789'' ! n]
      else digits (n div 10) @ [''0123456789'' ! (n mod 10)])"

declare digits.simps [simp del]

definition repr_int :: "int \<Rightarrow> string" where
  "repr_int i = (if i < 0 then CHR ''-'' # digits (nat (- i)) else digits (nat i))"

section \<open>Callables\<close>

text \<open>
  A callable is modelled by what it does once it has been called: a function of the
  store and of the two objects it receives, the tuple of its positional arguments and the
  dict of its keyword arguments (what a Python function with the parameters \<^verbatim>\<open>*args\<close>
  and \<^verbatim>\<open>**kwargs\<close> finds bound to them). What the callable returns or raises, and what it
  does to the store, is its result \<open>'r\<close>.
\<close>

type_synonym ('v, 'r) callable = "'v heap \<Rightarrow> addr \<Rightarrow> addr \<Rightarrow> 'r"

text \<open>
  The call expression \<^verbatim>\<open>callable(*x, **y)\<close>. The interpreter unpacks the object \<open>x\<close>
  into the positional arguments and the object \<open>y\<close> into the keyword arguments; the
  callee receives a new tuple and a new dict with these contents, never the objects \<open>x\<close>
  and \<open>y\<close> themselves. An operand that cannot be unpacked is a TypeError of the call.
\<close>

definition call :: "('v, 'r) callable \<Rightarrow> 'v heap \<Rightarrow> addr \<Rightarrow> addr \<Rightarrow> error + 'r" where
  "call callable h x y =
     (case tuple_at h x of
        Inl e \<Rightarrow> Inl e
      | Inr ps \<Rightarrow>
          (case dict_at h y of
             Inl e \<Rightarrow> Inl e
           | Inr kw \<Rightarrow>
               (let (a, h1) = alloc h (Tuple ps);
                    (k, h2) = alloc h1 (Dict kw)
                in Inr (callable h2 a k))))"

text \<open>
  Binding the keyword arguments of a call to a signature: a keyword argument with the
  name of a parameter that the call has already filled by position is a TypeError
  (\<^verbatim>\<open>got multiple values for argument\<close>), raised before the body runs.
  \<open>keyword_clash params kwargs\<close> holds when a key of \<open>kwargs\<close> is one of \<open>params\<close>.
\<close>

definition keyword_clash :: "string list \<Rightarrow> (string \<times> 'v) list \<Rightarrow> bool" where
  "keyword_clash params kwargs = list_ex (\<lambda>k. k \<in> set params) (map fst kwargs)"

text \<open>
  A function written in Python never sees the unpacked objects, only their contents:
  the positional values in order and the keyword items. \<open>pyfunc f\<close> is the callable of
  such a function \<open>f\<close>.
\<close>

definition pyfunc :: "('v list \<Rightarrow> (string \<times> 'v) list \<Rightarrow> 'r) \<Rightarrow> ('v, error + 'r) callable" where
  "pyfunc f h x y =
     (case tuple_at h x of
        Inl e \<Rightarrow> Inl e
      | Inr ps \<Rightarrow>
          (case dict_at h y of
             Inl e \<Rightarrow> Inl e
           | Inr kw \<Rightarrow> Inr (f ps kw)))"

text \<open>
  \<^verbatim>\<open>functools.partial\<close> of the standard library, after the equivalent Python code in
  its documentation: \<^verbatim>\<open>partial(func, *x, **y)\<close> keeps \<open>func\<close> and its own tuple and
  dict of the unpacked arguments; calling the partial object calls \<open>func\<close> with the kept
  positional arguments followed by the new ones, and the kept keywords updated by the new
  ones.
\<close>

datatype ('v, 'r) partial =
  Partial (partial_func: "('v, 'r) callable") (partial_args: addr) (partial_keywords: addr)

definition functools_partial ::
  "'v heap \<Rightarrow> ('v, 'r) callable \<Rightarrow> addr \<Rightarrow> addr \<Rightarrow> error + ('v, 'r) partial \<times> 'v heap" where
  "functools_partial h func x y =
     (case tuple_at h x of
        Inl e \<Rightarrow> Inl e
      | Inr ps \<Rightarrow>
          (case dict_at h y of
             Inl e \<Rightarrow> Inl e
           | Inr kw \<Rightarrow>
               (let (a, h1) = alloc h (Tuple ps);
                    (k, h2) = alloc h1 (Dict kw)
                in Inr (Partial func a k, h2))))"

definition partial_call ::
  "'v heap \<Rightarrow> ('v, 'r) partial \<Rightarrow> 'v list \<Rightarrow> (string \<times> 'v) list \<Rightarrow> error + 'r" where
  "partial_call h p args keywords =
     (case dict_at h (partial_keywords p) of
        Inl e \<Rightarrow> Inl e
      | Inr kw \<Rightarrow>
          (let (k, h1) = alloc h (Dict (dict_update kw keywords)) in
           (case tuple_at h1 (partial_args p) of
              Inl e \<Rightarrow> Inl e
            | Inr ps \<Rightarrow>
                (let (a, h2) = alloc h1 (Tuple (ps @ args)) in
                 Inr (partial_func p h2 a k)))))"

section \<open>The class Arguments and the function argskwargs\<close>

text \<open>
  Lines 26 to 32, as the class call \<^verbatim>\<open>Arguments(args, kwargs, magic)\<close>: a new instance
  is initialised by \<^verbatim>\<open>__init__\<close>, which raises TypeError unless \<open>magic\<close> is the
  sentinel object (\<^verbatim>\<open>is not\<close> compares identities). When it raises, the new instance is
  unreachable, so the model allocates only on success.
\<close>

definition Arguments_init :: "'v heap \<Rightarrow> addr \<Rightarrow> addr \<Rightarrow> addr \<Rightarrow> error + addr \<times> 'v heap" where
  "Arguments_init h args kwargs magic =
     (if magic \<noteq> yes_i_am_an_internal_call then Inl TypeError
      else Inr (alloc h (Instance Arguments args kwargs)))"

text \<open>
  Lines 129 to 140. The call \<^verbatim>\<open>argskwargs(p1, ..., k1=v1, ...)\<close> binds \<^verbatim>\<open>args\<close> to a
  new tuple of the positional arguments and \<^verbatim>\<open>kwargs\<close> to a new dict of the keyword
  arguments, and the body passes both to the class with the sentinel.
\<close>

definition argskwargs :: "'v heap \<Rightarrow> 'v list \<Rightarrow> (string \<times> 'v) list \<Rightarrow> error + addr \<times> 'v heap" where
  "argskwargs h args kwargs =
     (let (a, h1) = alloc h (Tuple args);
          (k, h2) = alloc h1 (Dict kwargs)
      in Arguments_init h2 a k yes_i_am_an_internal_call)"

text \<open>
  \<open>argskwargs\<close> as a callable, line 140: the body, given the tuple and the dict that
  the call has bound to \<^verbatim>\<open>args\<close> and \<^verbatim>\<open>kwargs\<close>.
\<close>

definition argskwargs_body :: "('v, error + addr \<times> 'v heap) callable" where
  "argskwargs_body h args kwargs = Arguments_init h args kwargs yes_i_am_an_internal_call"

text \<open>The attribute reads \<^verbatim>\<open>self.args\<close> and \<^verbatim>\<open>self.kwargs\<close>.\<close>

definition get_args :: "'v heap \<Rightarrow> addr \<Rightarrow> error + addr" where
  "get_args h self =
     (case lookup h self of Some (Instance c a k) \<Rightarrow> Inr a | _ \<Rightarrow> Inl AttributeError)"

definition get_kwargs :: "'v heap \<Rightarrow> addr \<Rightarrow> error + addr" where
  "get_kwargs h self =
     (case lookup h self of Some (Instance c a k) \<Rightarrow> Inr k | _ \<Rightarrow> Inl AttributeError)"

text \<open>
  Lines 34 to 43, \<^verbatim>\<open>__repr__\<close>. The \<^verbatim>\<open>repr\<close> of the stored values is a parameter.
  \<^verbatim>\<open>'{0}={1!r}'.format(name, value)\<close> is the name, an equals sign and the \<^verbatim>\<open>repr\<close>
  of the value.
\<close>

definition Arguments_repr :: "('v \<Rightarrow> string) \<Rightarrow> 'v heap \<Rightarrow> addr \<Rightarrow> error + string" where
  "Arguments_repr repr h self =
     (case get_args h self of
        Inl e \<Rightarrow> Inl e
      | Inr a \<Rightarrow>
          (case get_kwargs h self of
             Inl e \<Rightarrow> Inl e
           | Inr k \<Rightarrow>
               (case tuple_at h a of
                  Inl e \<Rightarrow> Inl e
                | Inr ps \<Rightarrow>
                    (case dict_at h k of
                       Inl e \<Rightarrow> Inl e
                     | Inr d \<Rightarrow>
                         Inr (''argskwargs('' @
                              join '', ''
                                (map repr ps @
                                 map (\<lambda>(name, value). name @ ''='' @ repr value)
                                   (sorted_items d)) @
                              '')'')))))"

text \<open>Lines 48 to 50, \<^verbatim>\<open>__iter__\<close>: the objects the generator yields, in order.\<close>

definition Arguments_iter :: "'v heap \<Rightarrow> addr \<Rightarrow> error + addr list" where
  "Arguments_iter h self =
     (case get_args h self of
        Inl e \<Rightarrow> Inl e
      | Inr a \<Rightarrow>
          (case get_kwargs h self of
             Inl e \<Rightarrow> Inl e
           | Inr k \<Rightarrow> Inr [a, k]))"

text \<open>
  Lines 52 to 67, \<^verbatim>\<open>apply\<close>, called as \<^verbatim>\<open>self.apply(callable, *args, **kwargs)\<close>. The
  signature is \<^verbatim>\<open>(self, callable, *args, **kwargs)\<close>: an extra keyword argument named
  \<^verbatim>\<open>self\<close> or \<^verbatim>\<open>callable\<close> is a TypeError of the binding. The parameters \<^verbatim>\<open>*args\<close>
  and \<^verbatim>\<open>**kwargs\<close> are local containers that the body only reads: they are the lists
  \<open>args\<close> and \<open>kwargs\<close>. An error of the binding, of the body or of the unpacking is
  \<open>Inl\<close>; the result of the callable is returned as it is.
\<close>

definition Arguments_apply ::
  "'v heap \<Rightarrow> addr \<Rightarrow> ('v, 'r) callable \<Rightarrow> 'v list \<Rightarrow> (string \<times> 'v) list \<Rightarrow> error + 'r" where
  "Arguments_apply h self callable args kwargs =
     (if keyword_clash [''self'', ''callable''] kwargs then Inl TypeError
      else if args = [] \<and> kwargs = [] then
        (case get_args h self of
           Inl e \<Rightarrow> Inl e
         | Inr a \<Rightarrow>
             (case get_kwargs h self of
                Inl e \<Rightarrow> Inl e
              | Inr k \<Rightarrow> call callable h a k))
      else
        (case get_kwargs h self of
           Inl e \<Rightarrow> Inl e
         | Inr k \<Rightarrow>
             (case dict_copy h k of
                Inl e \<Rightarrow> Inl e
              | Inr (merged_kwargs, h1) \<Rightarrow>
                  (case dict_update_inplace h1 merged_kwargs kwargs of
                     Inl e \<Rightarrow> Inl e
                   | Inr h2 \<Rightarrow>
                       (case get_args h2 self of
                          Inl e \<Rightarrow> Inl e
                        | Inr a \<Rightarrow>
                            (case tuple_add h2 a args of
                               Inl e \<Rightarrow> Inl e
                             | Inr (merged_args, h3) \<Rightarrow>
                                 call callable h3 merged_args merged_kwargs))))))"

text \<open>
  Lines 71 to 84, \<^verbatim>\<open>partial\<close>: the same signature and the same merge, without a path
  for no arguments.
\<close>

definition Arguments_partial ::
  "'v heap \<Rightarrow> addr \<Rightarrow> ('v, 'r) callable \<Rightarrow> 'v list \<Rightarrow> (string \<times> 'v) list \<Rightarrow>
     error + ('v, 'r) partial \<times> 'v heap" where
  "Arguments_partial h self callable args kwargs =
     (if keyword_clash [''self'', ''callable''] kwargs then Inl TypeError
      else
        (case get_kwargs h self of
           Inl e \<Rightarrow> Inl e
         | Inr k \<Rightarrow>
             (case dict_copy h k of
                Inl e \<Rightarrow> Inl e
              | Inr (merged_kwargs, h1) \<Rightarrow>
                  (case dict_update_inplace h1 merged_kwargs kwargs of
                     Inl e \<Rightarrow> Inl e
                   | Inr h2 \<Rightarrow>
                       (case get_args h2 self of
                          Inl e \<Rightarrow> Inl e
                        | Inr a \<Rightarrow>
                            (case tuple_add h2 a args of
                               Inl e \<Rightarrow> Inl e
                             | Inr (merged_args, h3) \<Rightarrow>
                                 functools_partial h3 callable merged_args merged_kwargs))))))"

text \<open>
  Lines 86 to 106, \<^verbatim>\<open>copy\<close>, with the signature \<^verbatim>\<open>(self, *args, **kwargs)\<close>: an extra
  keyword argument named \<^verbatim>\<open>self\<close> is a TypeError of the binding. Line 106 passes the
  extra arguments on to \<^verbatim>\<open>self.apply\<close>, whose own binding then refuses \<^verbatim>\<open>callable\<close>.
\<close>

definition Arguments_copy ::
  "'v heap \<Rightarrow> addr \<Rightarrow> 'v list \<Rightarrow> (string \<times> 'v) list \<Rightarrow> error + addr \<times> 'v heap" where
  "Arguments_copy h self args kwargs =
     (if keyword_clash [''self''] kwargs then Inl TypeError
      else if args = [] \<and> kwargs = [] then Inr (self, h)
      else
        (case Arguments_apply h self argskwargs_body args kwargs of
           Inl e \<Rightarrow> Inl e
         | Inr r \<Rightarrow> r))"

text \<open>
  Lines 108 to 111, \<^verbatim>\<open>__eq__\<close>. The type test comes first and reads nothing of
  \<open>self\<close>. The two pairs that line 111 builds are temporary; comparing them compares the
  first components and then the second ones.
\<close>

definition Arguments_eq :: "'v heap \<Rightarrow> addr \<Rightarrow> addr \<Rightarrow> error + bool" where
  "Arguments_eq h self other =
     (case lookup h other of
        Some (Instance Arguments oa ok) \<Rightarrow>
          (case lookup h self of
             Some (Instance c sa sk) \<Rightarrow> Inr (py_eq h sa oa \<and> py_eq h sk ok)
           | _ \<Rightarrow> Inl AttributeError)
      | _ \<Rightarrow> Inr False)"

text \<open>Lines 113 and 114, \<^verbatim>\<open>__ne__\<close>.\<close>

definition Arguments_ne :: "'v heap \<Rightarrow> addr \<Rightarrow> addr \<Rightarrow> error + bool" where
  "Arguments_ne h self other =
     (case Arguments_eq h self other of
        Inl e \<Rightarrow> Inl e
      | Inr r \<Rightarrow> Inr (\<not> r))"

text \<open>
  The operators \<^verbatim>\<open>x == y\<close> and \<^verbatim>\<open>x != y\<close>, after the rules of the language for rich
  comparisons. When the type of the right operand is a strict subclass of the type of the
  left operand, the method of the right operand is tried first, with the operands
  swapped; otherwise the method of the left operand is. \<^verbatim>\<open>Arguments.__eq__\<close> and
  \<^verbatim>\<open>Arguments.__ne__\<close> never return \<^verbatim>\<open>NotImplemented\<close>, so the first method tried
  decides. \<open>Subclass\<close> inherits both methods. A left operand that is no instance leaves
  the comparison to the instance on the right, and two built-in objects are compared by
  \<open>py_eq\<close>.
\<close>

definition strict_subclass :: "pyclass \<Rightarrow> pyclass \<Rightarrow> bool" where
  "strict_subclass c d = (c = Subclass \<and> d = Arguments)"

definition operator_eq :: "'v heap \<Rightarrow> addr \<Rightarrow> addr \<Rightarrow> error + bool" where
  "operator_eq h x y =
     (case lookup h x of
        Some (Instance cx xa xk) \<Rightarrow>
          (case lookup h y of
             Some (Instance cy ya yk) \<Rightarrow>
               (if strict_subclass cy cx then Arguments_eq h y x else Arguments_eq h x y)
           | _ \<Rightarrow> Arguments_eq h x y)
      | _ \<Rightarrow>
          (case lookup h y of
             Some (Instance cy ya yk) \<Rightarrow> Arguments_eq h y x
           | _ \<Rightarrow> Inr (py_eq h x y)))"

definition operator_ne :: "'v heap \<Rightarrow> addr \<Rightarrow> addr \<Rightarrow> error + bool" where
  "operator_ne h x y =
     (case lookup h x of
        Some (Instance cx xa xk) \<Rightarrow>
          (case lookup h y of
             Some (Instance cy ya yk) \<Rightarrow>
               (if strict_subclass cy cx then Arguments_ne h y x else Arguments_ne h x y)
           | _ \<Rightarrow> Arguments_ne h x y)
      | _ \<Rightarrow>
          (case lookup h y of
             Some (Instance cy ya yk) \<Rightarrow> Arguments_ne h y x
           | _ \<Rightarrow> Inr (\<not> py_eq h x y)))"

section \<open>The store after the methods that only read\<close>




section \<open>Bundles\<close>

text \<open>
  \<open>is_bundle h b a k P N\<close>: in the store \<open>h\<close>, \<open>b\<close> is an instance of exactly
  \<^verbatim>\<open>Arguments\<close> whose slots refer to the tuple \<open>a\<close> with elements \<open>P\<close> and to the dict
  \<open>k\<close> with items \<open>N\<close>.
\<close>

definition is_bundle ::
  "'v heap \<Rightarrow> addr \<Rightarrow> addr \<Rightarrow> addr \<Rightarrow> 'v list \<Rightarrow> (string \<times> 'v) list \<Rightarrow> bool" where
  "is_bundle h b a k P N =
     (lookup h b = Some (Instance Arguments a k) \<and>
      lookup h a = Some (Tuple P) \<and>
      lookup h k = Some (Dict N) \<and>
      distinct (map fst N))"

text \<open>
  \<open>is_subclass_instance h s a k P N\<close>: the same for an instance \<open>s\<close> of a strict
  subclass of \<^verbatim>\<open>Arguments\<close>.
\<close>

definition is_subclass_instance ::
  "'v heap \<Rightarrow> addr \<Rightarrow> addr \<Rightarrow> addr \<Rightarrow> 'v list \<Rightarrow> (string \<times> 'v) list \<Rightarrow> bool" where
  "is_subclass_instance h s a k P N =
     (lookup h s = Some (Instance Subclass a k) \<and>
      lookup h a = Some (Tuple P) \<and>
      lookup h k = Some (Dict N) \<and>
      distinct (map fst N))"

text \<open>\<open>is_Arguments h v\<close>: the dynamic type of the object \<open>v\<close> is exactly \<^verbatim>\<open>Arguments\<close>.\<close>

definition is_Arguments :: "'v heap \<Rightarrow> addr \<Rightarrow> bool" where
  "is_Arguments h v =
     (case lookup h v of Some (Instance Arguments a k) \<Rightarrow> True | _ \<Rightarrow> False)"

section \<open>Facts about the built-in operations\<close>






lemma dict_eq_iff_map_of:
  assumes "distinct (map fst d)" and "distinct (map fst e)"
  shows "dict_eq d e \<longleftrightarrow> map_of d = map_of e"
proof
  assume eq: "dict_eq d e"
  then have len: "length d = length e"
    and items: "\<forall>(k, v) \<in> set d. map_of e k = Some v"
    by (auto simp: dict_eq_def list_all_iff)
  have sub: "set d \<subseteq> set e"
    using items by (auto dest: map_of_SomeD)
  have dd: "distinct d" and de: "distinct e"
    using assms by (simp_all add: distinct_map)
  have "card (set d) = card (set e)"
    using len dd de by (simp add: distinct_card)
  with sub have "set d = set e"
    by (simp add: card_subset_eq)
  then show "map_of d = map_of e"
    using assms by (simp add: map_of_inject_set)
next
  assume eq: "map_of d = map_of e"
  then have sets: "set d = set e"
    using assms by (simp add: map_of_inject_set)
  have dd: "distinct d" and de: "distinct e"
    using assms by (simp_all add: distinct_map)
  have "length d = length e"
    using sets dd de by (metis distinct_card)
  moreover have "map_of e k = Some v" if "(k, v) \<in> set d" for k v
    using that assms(1) eq by (metis map_of_is_SomeI)
  ultimately show "dict_eq d e"
    by (auto simp: dict_eq_def list_all_iff)
qed

lemma filter_same_key:
  "distinct (map fst xs) \<Longrightarrow> kv \<in> set xs \<Longrightarrow> filter (\<lambda>x. fst kv = fst x) xs = [kv]"
proof (induction xs)
  case Nil
  then show ?case by simp
next
  case (Cons x xs)
  show ?case
  proof (cases "x = kv")
    case True
    have "filter (\<lambda>y. fst kv = fst y) xs = []"
      using Cons.prems(1) True by (auto simp: filter_empty_conv image_iff)
    with True show ?thesis by simp
  next
    case False
    then have "kv \<in> set xs" using Cons.prems(2) by simp
    moreover have "fst kv \<noteq> fst x"
      using Cons.prems(1) \<open>kv \<in> set xs\<close> by (auto simp: image_iff)
    ultimately show ?thesis using Cons by simp
  qed
qed

lemma sorted_items_order_independent:
  assumes "distinct (map fst d)" and "distinct (map fst e)" and "map_of d = map_of e"
  shows "sorted_items d = sorted_items e"
proof -
  have sets: "set d = set e"
    using assms by (simp add: map_of_inject_set)
  have dd: "distinct d" and de: "distinct e"
    using assms by (simp_all add: distinct_map)
  have ms: "mset d = mset e"
    using sets dd de by (simp add: set_eq_iff_mset_eq_distinct)
  have "sort_key fst d = sort_key fst e"
  proof (rule properties_for_sort_key)
    show "mset (sort_key fst e) = mset d" using ms by simp
    show "sorted (map fst (sort_key fst e))" by simp
    fix kv assume "kv \<in> set (sort_key fst e)"
    then have in_e: "kv \<in> set e" by simp
    then have in_d: "kv \<in> set d" using sets by simp
    have "distinct (map fst (sort_key fst e))"
      using assms(2) by (metis distinct_map distinct_sort set_sort inj_on_def)
    then have "filter (\<lambda>x. fst kv = fst x) (sort_key fst e) = [kv]"
      using in_e by (simp add: filter_same_key)
    moreover have "filter (\<lambda>x. fst kv = fst x) d = [kv]"
      using assms(1) in_d by (rule filter_same_key)
    ultimately show "filter (\<lambda>x. fst kv = fst x) (sort_key fst e) = filter (\<lambda>x. fst kv = fst x) d"
      by simp
  qed
  then show ?thesis by (simp add: sorted_items_def)
qed

section \<open>The paths of apply, partial and copy on a bundle\<close>


lemma pyfunc_at:
  "lookup h x = Some (Tuple ps) \<Longrightarrow> lookup h y = Some (Dict kw) \<Longrightarrow> pyfunc f h x y = Inr (f ps kw)"
  by (simp add: pyfunc_def tuple_at_def dict_at_def)

lemma call_at:
  "lookup h x = Some (Tuple ps) \<Longrightarrow> lookup h y = Some (Dict kw) \<Longrightarrow>
   call callable h x y = Inr (callable (h @ [Tuple ps, Dict kw]) (length h) (Suc (length h)))"
  by (simp add: call_def tuple_at_def dict_at_def alloc_def)



text \<open>A keyword argument with the name of a parameter: the binding raises.\<close>

lemma apply_clash:
  "keyword_clash [''self'', ''callable''] M \<Longrightarrow> Arguments_apply h b callable E M = Inl TypeError"
  by (simp add: Arguments_apply_def)

lemma partial_clash:
  "keyword_clash [''self'', ''callable''] M \<Longrightarrow> Arguments_partial h b callable E M = Inl TypeError"
  by (simp add: Arguments_partial_def)


text \<open>
  Without arguments, lines 61 and 62: the body creates no object and the call unpacks
  the objects of the two slots; the two new objects are those of the callee.
\<close>

lemma apply_plain_call:
  assumes "is_bundle h b a k P N"
  shows "Arguments_apply h b callable [] [] = call callable h a k"
  using assms
  by (simp add: is_bundle_def Arguments_apply_def get_args_def get_kwargs_def keyword_clash_def)

lemma apply_plain:
  assumes "is_bundle h b a k P N"
  shows "Arguments_apply h b callable [] [] =
           Inr (callable (h @ [Tuple P, Dict N]) (length h) (Suc (length h)))"
  using assms by (simp add: apply_plain_call [OF assms] is_bundle_def call_at)

text \<open>
  With an argument, lines 65 to 67: the copy of the dict is the first new object, the
  concatenated tuple the second one, and the call adds the two objects of the callee.
\<close>

lemma apply_merge:
  assumes "is_bundle h b a k P N" and "E \<noteq> [] \<or> M \<noteq> []"
    and "\<not> keyword_clash [''self'', ''callable''] M"
  shows "Arguments_apply h b callable E M =
           Inr (callable
                  (h @ [Dict (dict_update N M), Tuple (P @ E), Tuple (P @ E), Dict (dict_update N M)])
                  (length h + 2) (length h + 3))"
  using assms
  by (auto simp: is_bundle_def Arguments_apply_def get_args_def get_kwargs_def dict_copy_def
      dict_update_inplace_def tuple_add_def alloc_def lookup_def nth_append call_def
      tuple_at_def dict_at_def numeral_3_eq_3 split: if_splits)

lemma partial_merge:
  assumes "is_bundle h b a k P N" and "\<not> keyword_clash [''self'', ''callable''] M"
  shows "Arguments_partial h b callable E M =
           Inr (Partial callable (length h + 2) (length h + 3),
                h @ [Dict (dict_update N M), Tuple (P @ E), Tuple (P @ E), Dict (dict_update N M)])"
  using assms
  by (auto simp: is_bundle_def Arguments_partial_def get_args_def get_kwargs_def dict_copy_def
      dict_update_inplace_def tuple_add_def alloc_def lookup_def nth_append functools_partial_def
      tuple_at_def dict_at_def split: if_splits)

lemma apply_pyfunc:
  assumes "is_bundle h b a k P N" and "\<not> keyword_clash [''self'', ''callable''] M"
  shows "Arguments_apply h b (pyfunc f) E M = Inr (Inr (f (P @ E) (dict_update N M)))"
proof (cases "E = [] \<and> M = []")
  case True
  have "pyfunc f (h @ [Tuple P, Dict N]) (length h) (Suc (length h)) = Inr (f P N)"
    by (simp add: pyfunc_at lookup_def nth_append)
  then show ?thesis
    using True by (simp add: apply_plain [OF assms(1)])
next
  case False
  then have ne: "E \<noteq> [] \<or> M \<noteq> []" by simp
  show ?thesis
    by (simp add: apply_merge [OF assms(1) ne assms(2)] pyfunc_def tuple_at_def dict_at_def
        lookup_def nth_append)
qed







lemma eq_bundles:
  assumes "is_bundle h x ax kx Px Nx" and "is_bundle h y ay ky Py Ny"
  shows "Arguments_eq h x y = Inr (Px = Py \<and> map_of Nx = map_of Ny)"
proof -
  have t: "py_eq h ax ay \<longleftrightarrow> Px = Py"
    using assms by (auto simp: is_bundle_def py_eq_def)
  have "py_eq h kx ky \<longleftrightarrow> dict_eq Nx Ny \<or> kx = ky"
    using assms by (auto simp: is_bundle_def py_eq_def)
  moreover have "kx = ky \<Longrightarrow> map_of Nx = map_of Ny"
    using assms by (auto simp: is_bundle_def)
  moreover have "dict_eq Nx Ny \<longleftrightarrow> map_of Nx = map_of Ny"
    using assms by (simp add: is_bundle_def dict_eq_iff_map_of)
  ultimately have d: "py_eq h kx ky \<longleftrightarrow> map_of Nx = map_of Ny"
    by blast
  show ?thesis
    using assms t d by (simp add: Arguments_eq_def is_bundle_def)
qed

lemma eq_other_type:
  assumes "\<not> is_Arguments h v"
  shows "Arguments_eq h x v = Inr False"
  using assms
  by (auto simp: Arguments_eq_def is_Arguments_def split: option.splits obj.splits pyclass.splits)

lemma eq_subclass_with_bundle:
  assumes "is_subclass_instance h s sa sk Ps Ns" and "is_bundle h b a k P N"
  shows "Arguments_eq h s b = Inr (P = Ps \<and> map_of N = map_of Ns)"
proof -
  have t: "py_eq h sa a \<longleftrightarrow> P = Ps"
    using assms by (auto simp: is_bundle_def is_subclass_instance_def py_eq_def)
  have "py_eq h sk k \<longleftrightarrow> dict_eq Ns N \<or> sk = k"
    using assms by (auto simp: is_bundle_def is_subclass_instance_def py_eq_def)
  moreover have "sk = k \<Longrightarrow> map_of Ns = map_of N"
    using assms by (auto simp: is_bundle_def is_subclass_instance_def)
  moreover have "dict_eq Ns N \<longleftrightarrow> map_of Ns = map_of N"
    using assms by (simp add: is_bundle_def is_subclass_instance_def dict_eq_iff_map_of)
  ultimately have d: "py_eq h sk k \<longleftrightarrow> map_of N = map_of Ns"
    by auto
  show ?thesis
    using assms t d by (simp add: Arguments_eq_def is_bundle_def is_subclass_instance_def)
qed

lemma operator_with_subclass:
  assumes "is_bundle h b a k P N" and "lookup h s = Some (Instance Subclass sa sk)"
  shows "operator_eq h b s = Arguments_eq h s b" and "operator_ne h b s = Arguments_ne h s b"
    and "operator_eq h s b = Arguments_eq h s b" and "operator_ne h s b = Arguments_ne h s b"
  using assms
  by (simp_all add: operator_eq_def operator_ne_def is_bundle_def strict_subclass_def)


section \<open>The claims\<close>

subsection \<open>Merging on apply\<close>




subsection \<open>The gate of the constructor\<close>



subsection \<open>Construction and destructuring\<close>

text \<open>
  Claim C3. \<^verbatim>\<open>argskwargs(*P, **N)\<close> returns an instance, and iterating over it yields
  exactly two objects: first a tuple with the elements \<open>P\<close>, then a dict with the items
  \<open>N\<close>.
\<close>

theorem argskwargs_iter_roundtrip:
  "\<exists>b h' a k. argskwargs h P N = Inr (b, h') \<and> Arguments_iter h' b = Inr [a, k]
     \<and> lookup h' a = Some (Tuple P) \<and> lookup h' k = Some (Dict N)"
  by (simp add: argskwargs_def alloc_def Arguments_init_def Arguments_iter_def
      get_args_def get_kwargs_def lookup_def nth_append)

subsection \<open>Equality\<close>

text \<open>
  Claim C4. For two bundles, \<^verbatim>\<open>x == y\<close> holds if and only if their positionals are the
  same sequence and their named items are the same mapping from keys to values (the
  order of the items does not matter), and \<^verbatim>\<open>x != y\<close> is the negation. For an object
  \<open>v\<close> whose type is not \<^verbatim>\<open>Arguments\<close>, \<^verbatim>\<open>x == v\<close> is false and \<^verbatim>\<open>x != v\<close> is true.
  The comparison is the method of the left operand, \<^verbatim>\<open>x.__eq__\<close>.
\<close>

theorem eq_is_structural:
  "(is_bundle h x ax kx Px Nx \<and> is_bundle h y ay ky Py Ny \<longrightarrow>
      Arguments_eq h x y = Inr (Px = Py \<and> map_of Nx = map_of Ny)
      \<and> Arguments_ne h x y = Inr (\<not> (Px = Py \<and> map_of Nx = map_of Ny)))
   \<and> (\<not> is_Arguments h v \<longrightarrow>
      Arguments_eq h x v = Inr False \<and> Arguments_ne h x v = Inr True)"
proof (intro conjI impI)
  assume both: "is_bundle h x ax kx Px Nx \<and> is_bundle h y ay ky Py Ny"
  then show eq: "Arguments_eq h x y = Inr (Px = Py \<and> map_of Nx = map_of Ny)"
    using eq_bundles by blast
  show "Arguments_ne h x y = Inr (\<not> (Px = Py \<and> map_of Nx = map_of Ny))"
    unfolding Arguments_ne_def eq by simp
next
  assume other: "\<not> is_Arguments h v"
  then show eq: "Arguments_eq h x v = Inr False"
    by (rule eq_other_type)
  show "Arguments_ne h x v = Inr True"
    unfolding Arguments_ne_def eq by simp
qed

text \<open>
  \<^verbatim>\<open>argskwargs(1, 2, x=3, y=4) == argskwargs(1, 2, y=4, x=3)\<close>, and the first is not
  equal to the tuple \<^verbatim>\<open>(1, 2)\<close>.
\<close>

theorem eq_is_structural_witness:
  "is_bundle [Object, Tuple [1 :: int, 2], Dict [(''x'', 3), (''y'', 4)], Instance Arguments 1 2,
              Tuple [1, 2], Dict [(''y'', 4), (''x'', 3)], Instance Arguments 4 5]
      3 1 2 [1, 2] [(''x'', 3), (''y'', 4)]
   \<and> is_bundle [Object, Tuple [1 :: int, 2], Dict [(''x'', 3), (''y'', 4)], Instance Arguments 1 2,
              Tuple [1, 2], Dict [(''y'', 4), (''x'', 3)], Instance Arguments 4 5]
      6 4 5 [1, 2] [(''y'', 4), (''x'', 3)]
   \<and> \<not> is_Arguments [Object, Tuple [1 :: int, 2], Dict [(''x'', 3), (''y'', 4)], Instance Arguments 1 2,
              Tuple [1, 2], Dict [(''y'', 4), (''x'', 3)], Instance Arguments 4 5] 1
   \<and> Arguments_eq [Object, Tuple [1 :: int, 2], Dict [(''x'', 3), (''y'', 4)], Instance Arguments 1 2,
              Tuple [1, 2], Dict [(''y'', 4), (''x'', 3)], Instance Arguments 4 5] 3 6 = Inr True
   \<and> Arguments_ne [Object, Tuple [1 :: int, 2], Dict [(''x'', 3), (''y'', 4)], Instance Arguments 1 2,
              Tuple [1, 2], Dict [(''y'', 4), (''x'', 3)], Instance Arguments 4 5] 3 6 = Inr False
   \<and> Arguments_eq [Object, Tuple [1 :: int, 2], Dict [(''x'', 3), (''y'', 4)], Instance Arguments 1 2,
              Tuple [1, 2], Dict [(''y'', 4), (''x'', 3)], Instance Arguments 4 5] 3 1 = Inr False
   \<and> Arguments_ne [Object, Tuple [1 :: int, 2], Dict [(''x'', 3), (''y'', 4)], Instance Arguments 1 2,
              Tuple [1, 2], Dict [(''y'', 4), (''x'', 3)], Instance Arguments 4 5] 3 1 = Inr True"
proof -
  let ?h = "[Object, Tuple [1 :: int, 2], Dict [(''x'', 3), (''y'', 4)], Instance Arguments 1 2,
             Tuple [1, 2], Dict [(''y'', 4), (''x'', 3)], Instance Arguments 4 5]"
  have hyp1: "is_bundle ?h 3 1 2 [1, 2] [(''x'', 3), (''y'', 4)]"
    by (simp add: is_bundle_def lookup_def)
  have hyp2: "is_bundle ?h 6 4 5 [1, 2] [(''y'', 4), (''x'', 3)]"
    by (simp add: is_bundle_def lookup_def)
  have hyp3: "\<not> is_Arguments ?h 1"
    by (simp add: is_Arguments_def lookup_def)
  have same: "map_of [(''x'', 3 :: int), (''y'', 4)] = map_of [(''y'', 4), (''x'', 3)]"
    by (auto simp: fun_eq_iff)
  show ?thesis
    using hyp1 hyp2 hyp3 same
      eq_is_structural [of ?h 3 1 2 "[1, 2]" "[(''x'', 3), (''y'', 4)]"
        6 4 5 "[1, 2]" "[(''y'', 4), (''x'', 3)]" 1]
    by simp
qed

subsection \<open>The display string\<close>

text \<open>
  Claim C5. The \<^verbatim>\<open>repr\<close> of a bundle is \<^verbatim>\<open>argskwargs(\<close>, the chunks joined with a comma
  and a space, and \<^verbatim>\<open>)\<close>. The chunks are the \<^verbatim>\<open>repr\<close> of each positional in the stored
  order, followed by \<^verbatim>\<open>key=repr\<close> for each named item; the named items come in ascending
  lexicographic order of their keys, they are the stored items (each once), and their
  order does not depend on the order in which the dict holds them.
\<close>

theorem repr_format:
  assumes "is_bundle h b a k P N"
  shows "Arguments_repr repr h b =
           Inr (''argskwargs('' @
                join '', ''
                  (map repr P @
                   map (\<lambda>(name, value). name @ ''='' @ repr value) (sorted_items N)) @
                '')'')
         \<and> sorted (map fst (sorted_items N))
         \<and> mset (sorted_items N) = mset N
         \<and> (\<forall>N'. distinct (map fst N') \<and> map_of N' = map_of N \<longrightarrow>
                sorted_items N' = sorted_items N)"
proof (intro conjI allI impI)
  show "Arguments_repr repr h b =
           Inr (''argskwargs('' @
                join '', ''
                  (map repr P @
                   map (\<lambda>(name, value). name @ ''='' @ repr value) (sorted_items N)) @
                '')'')"
    using assms
    by (simp add: Arguments_repr_def is_bundle_def get_args_def get_kwargs_def
        tuple_at_def dict_at_def)
  show "sorted (map fst (sorted_items N))"
    by (simp add: sorted_items_def)
  show "mset (sorted_items N) = mset N"
    by (simp add: sorted_items_def)
  fix N' :: "(string \<times> 'a) list"
  assume "distinct (map fst N') \<and> map_of N' = map_of N"
  then show "sorted_items N' = sorted_items N"
    using assms by (simp add: is_bundle_def sorted_items_order_independent)
qed

text \<open>
  The example of the claim: \<^verbatim>\<open>repr(argskwargs(2, 1, b=2, a=1))\<close> is
  \<^verbatim>\<open>argskwargs(2, 1, a=1, b=2)\<close>.
\<close>

theorem repr_format_witness:
  "argskwargs module_heap [2 :: int, 1] [(''b'', 2), (''a'', 1)]
     = Inr (3, [Object, Tuple [2, 1], Dict [(''b'', 2), (''a'', 1)], Instance Arguments 1 2])
   \<and> is_bundle [Object, Tuple [2, 1], Dict [(''b'', 2), (''a'', 1)], Instance Arguments 1 2] 3 1 2
        [2 :: int, 1] [(''b'', 2), (''a'', 1)]
   \<and> Arguments_repr repr_int
        [Object, Tuple [2, 1], Dict [(''b'', 2), (''a'', 1)], Instance Arguments 1 2] 3
       = Inr ''argskwargs(2, 1, a=1, b=2)''"
proof -
  have built: "argskwargs module_heap [2 :: int, 1] [(''b'', 2), (''a'', 1)]
     = Inr (3, [Object, Tuple [2, 1], Dict [(''b'', 2), (''a'', 1)], Instance Arguments 1 2])"
    by (simp add: argskwargs_def module_heap_def alloc_def Arguments_init_def
        yes_i_am_an_internal_call_def)
  have hyp: "is_bundle [Object, Tuple [2, 1], Dict [(''b'', 2), (''a'', 1)], Instance Arguments 1 2]
      3 1 2 [2 :: int, 1] [(''b'', 2), (''a'', 1)]"
    by (simp add: is_bundle_def lookup_def)
  have order: "sorted_items [(''b'', 2 :: int), (''a'', 1)] = [(''a'', 1), (''b'', 2)]"
    by (simp add: sorted_items_def less_eq_char_def)
  have reprs: "repr_int 1 = ''1''" "repr_int 2 = ''2''"
    by (simp_all add: repr_int_def digits.simps)
  show ?thesis
    using built hyp repr_format [OF hyp, of repr_int] by (simp add: order reprs)
qed

subsection \<open>Copy without arguments\<close>

text \<open>
  Claim C6. \<^verbatim>\<open>b.copy()\<close> without arguments returns \<open>b\<close> itself, the same object, and
  creates no object.
\<close>

theorem copy_no_arguments_returns_self:
  "Arguments_copy h b [] [] = Inr (b, h)"
  by (simp add: Arguments_copy_def keyword_clash_def)

subsection \<open>Deferred and eager call\<close>

text \<open>
  Claim C7. For a bundle \<open>b\<close> and a Python function \<open>f\<close>, \<^verbatim>\<open>b.partial(f)\<close> returns a
  partial object, and calling it without arguments gives the result of \<^verbatim>\<open>b.apply(f)\<close>,
  the call of \<open>f\<close> with the stored positionals and named items. More generally, for all
  extra arguments \<open>E\<close> and \<open>M\<close>, calling the result of \<^verbatim>\<open>b.partial(f, *E, **M)\<close>
  without arguments has the outcome of \<^verbatim>\<open>b.apply(f, *E, **M)\<close>: both have the same
  signature and raise TypeError for an extra keyword argument named \<^verbatim>\<open>self\<close> or
  \<^verbatim>\<open>callable\<close>, and otherwise the partial object, called with further arguments \<open>F\<close>
  and \<open>G\<close>, calls \<open>f\<close> with the positionals of the bundle, then \<open>E\<close>, then \<open>F\<close>, and
  with the named items of the bundle updated by \<open>M\<close> and then by \<open>G\<close>.
\<close>

theorem partial_call_agrees_with_apply:
  assumes "is_bundle h b a k P N"
  shows "(\<exists>p h'. Arguments_partial h b (pyfunc f) [] [] = Inr (p, h')
            \<and> partial_call h' p [] [] = Arguments_apply h b (pyfunc f) [] []
            \<and> Arguments_apply h b (pyfunc f) [] [] = Inr (Inr (f P N)))
         \<and> (case Arguments_partial h b (pyfunc f) E M of
               Inl e \<Rightarrow> Inl e
             | Inr (p, h') \<Rightarrow> partial_call h' p [] [])
             = Arguments_apply h b (pyfunc f) E M
         \<and> (\<not> keyword_clash [''self'', ''callable''] M \<longrightarrow>
              (\<exists>p h'. Arguments_partial h b (pyfunc f) E M = Inr (p, h')
                 \<and> partial_call h' p F G
                     = Inr (Inr (f (P @ E @ F) (dict_update (dict_update N M) G)))))
         \<and> (keyword_clash [''self'', ''callable''] M \<longrightarrow>
              Arguments_partial h b (pyfunc f) E M = Inl TypeError
              \<and> Arguments_apply h b (pyfunc f) E M = Inl TypeError)"
proof -
  have call: "partial_call
                (h @ [Dict (dict_update N M'), Tuple (P @ E'), Tuple (P @ E'), Dict (dict_update N M')])
                (Partial (pyfunc f) (length h + 2) (length h + 3)) F' G'
                = Inr (Inr (f (P @ E' @ F') (dict_update (dict_update N M') G')))" for E' M' F' G'
    by (simp add: partial_call_def dict_at_def tuple_at_def lookup_def nth_append alloc_def
        pyfunc_def)
  have ok: "\<exists>p h'. Arguments_partial h b (pyfunc f) E' M' = Inr (p, h')
              \<and> partial_call h' p [] [] = Arguments_apply h b (pyfunc f) E' M'
              \<and> Arguments_apply h b (pyfunc f) E' M' = Inr (Inr (f (P @ E') (dict_update N M')))
              \<and> partial_call h' p F G
                  = Inr (Inr (f (P @ E' @ F) (dict_update (dict_update N M') G)))"
    if free: "\<not> keyword_clash [''self'', ''callable''] M'" for E' M'
  proof -
    have "partial_call
            (h @ [Dict (dict_update N M'), Tuple (P @ E'), Tuple (P @ E'), Dict (dict_update N M')])
            (Partial (pyfunc f) (length h + 2) (length h + 3)) [] []
          = Arguments_apply h b (pyfunc f) E' M'"
      using call [of M' E' "[]" "[]"] by (simp add: apply_pyfunc [OF assms free])
    then show ?thesis
      using partial_merge [OF assms free, of "pyfunc f" E'] apply_pyfunc [OF assms free, of f E']
        call [of M' E' F G]
      by blast
  qed
  have none: "\<not> keyword_clash [''self'', ''callable''] ([] :: (string \<times> 'a) list)"
    by (simp add: keyword_clash_def)
  have first: "\<exists>p h'. Arguments_partial h b (pyfunc f) [] [] = Inr (p, h')
            \<and> partial_call h' p [] [] = Arguments_apply h b (pyfunc f) [] []
            \<and> Arguments_apply h b (pyfunc f) [] [] = Inr (Inr (f P N))"
    using ok [OF none, of "[]"] by auto
  have second: "(case Arguments_partial h b (pyfunc f) E M of
               Inl e \<Rightarrow> Inl e
             | Inr (p, h') \<Rightarrow> partial_call h' p [] [])
             = Arguments_apply h b (pyfunc f) E M"
  proof (cases "keyword_clash [''self'', ''callable''] M")
    case True
    then show ?thesis by (simp add: partial_clash apply_clash)
  next
    case False
    from ok [OF False, of E] obtain p h' where
      "Arguments_partial h b (pyfunc f) E M = Inr (p, h')"
      "partial_call h' p [] [] = Arguments_apply h b (pyfunc f) E M"
      by blast
    then show ?thesis by simp
  qed
  have third: "\<not> keyword_clash [''self'', ''callable''] M \<longrightarrow>
              (\<exists>p h'. Arguments_partial h b (pyfunc f) E M = Inr (p, h')
                 \<and> partial_call h' p F G
                     = Inr (Inr (f (P @ E @ F) (dict_update (dict_update N M) G))))"
    using ok [of M E] by blast
  have fourth: "keyword_clash [''self'', ''callable''] M \<longrightarrow>
              Arguments_partial h b (pyfunc f) E M = Inl TypeError
              \<and> Arguments_apply h b (pyfunc f) E M = Inl TypeError"
    by (simp add: partial_clash apply_clash)
  from first second third fourth show ?thesis by (intro conjI)
qed

text \<open>
  \<^verbatim>\<open>argskwargs(1, a=2).partial(f, 3, b=4)()\<close> is \<^verbatim>\<open>f(1, 3, a=2, b=4)\<close>, as
  \<^verbatim>\<open>argskwargs(1, a=2).apply(f, 3, b=4)\<close> is, and with \<^verbatim>\<open>callable=4\<close> both raise
  TypeError.
\<close>

theorem partial_call_agrees_with_apply_witness:
  "is_bundle [Object, Tuple [1 :: int], Dict [(''a'', 2)], Instance Arguments 1 2] 3 1 2
      [1] [(''a'', 2)]
   \<and> \<not> keyword_clash [''self'', ''callable''] [(''b'', 4 :: int)]
   \<and> (case Arguments_partial [Object, Tuple [1 :: int], Dict [(''a'', 2)], Instance Arguments 1 2] 3
              (pyfunc (\<lambda>ps kw. (ps, kw))) [3] [(''b'', 4)] of
         Inl e \<Rightarrow> Inl e
       | Inr (p, h') \<Rightarrow> partial_call h' p [] [])
       = Inr (Inr ([1, 3], [(''a'', 2), (''b'', 4)]))
   \<and> Arguments_apply [Object, Tuple [1 :: int], Dict [(''a'', 2)], Instance Arguments 1 2] 3
           (pyfunc (\<lambda>ps kw. (ps, kw))) [3] [(''b'', 4)]
       = Inr (Inr ([1, 3], [(''a'', 2), (''b'', 4)]))
   \<and> keyword_clash [''self'', ''callable''] [(''callable'', 4 :: int)]
   \<and> Arguments_partial [Object, Tuple [1 :: int], Dict [(''a'', 2)], Instance Arguments 1 2] 3
           (pyfunc (\<lambda>ps kw. (ps, kw))) [3] [(''callable'', 4)]
       = Inl TypeError
   \<and> Arguments_apply [Object, Tuple [1 :: int], Dict [(''a'', 2)], Instance Arguments 1 2] 3
           (pyfunc (\<lambda>ps kw. (ps, kw))) [3] [(''callable'', 4)]
       = Inl TypeError"
proof -
  have hyp: "is_bundle [Object, Tuple [1 :: int], Dict [(''a'', 2)], Instance Arguments 1 2] 3 1 2
      [1] [(''a'', 2)]"
    by (simp add: is_bundle_def lookup_def)
  have free: "\<not> keyword_clash [''self'', ''callable''] [(''b'', 4 :: int)]"
    by (simp add: keyword_clash_def)
  have clash: "keyword_clash [''self'', ''callable''] [(''callable'', 4 :: int)]"
    by (simp add: keyword_clash_def)
  have app: "Arguments_apply [Object, Tuple [1 :: int], Dict [(''a'', 2)], Instance Arguments 1 2] 3
           (pyfunc (\<lambda>ps kw. (ps, kw))) [3] [(''b'', 4)]
       = Inr (Inr ([1, 3], [(''a'', 2), (''b'', 4)]))"
    using apply_pyfunc [OF hyp free, of "\<lambda>ps kw. (ps, kw)" "[3]"] by simp
  show ?thesis
    using hyp free clash app
      partial_call_agrees_with_apply [OF hyp, of "\<lambda>ps kw. (ps, kw)" "[3]" "[(''b'', 4)]" "[]" "[]"]
      partial_call_agrees_with_apply [OF hyp, of "\<lambda>ps kw. (ps, kw)" "[3]" "[(''callable'', 4)]" "[]" "[]"]
    by simp
qed

subsection \<open>The path without a copy\<close>




subsection \<open>Nothing stored is mutated\<close>



subsection \<open>Equality and subclasses\<close>

text \<open>
  Claim C10, as stated: a bundle compares unequal to every instance of a strict subclass
  with the same positionals and named items. The type test of line 109 is on the argument
  of the method only. For \<^verbatim>\<open>b == s\<close> with \<open>s\<close> an instance of a strict subclass the
  language calls \<^verbatim>\<open>s.__eq__(b)\<close> first, which finds that \<open>b\<close> is an \<^verbatim>\<open>Arguments\<close> and
  compares the contents: the bundle at address 3 and the subclass instance at address 6,
  both holding \<^verbatim>\<open>(1, x=2)\<close>, compare equal.
\<close>

theorem eq_subclass_instance_counterexample:
  "is_bundle [Object, Tuple [1 :: int], Dict [(''x'', 2)], Instance Arguments 1 2,
              Tuple [1], Dict [(''x'', 2)], Instance Subclass 4 5] 3 1 2 [1] [(''x'', 2)]
   \<and> is_subclass_instance [Object, Tuple [1 :: int], Dict [(''x'', 2)], Instance Arguments 1 2,
              Tuple [1], Dict [(''x'', 2)], Instance Subclass 4 5] 6 4 5 [1] [(''x'', 2)]
   \<and> operator_eq [Object, Tuple [1 :: int], Dict [(''x'', 2)], Instance Arguments 1 2,
              Tuple [1], Dict [(''x'', 2)], Instance Subclass 4 5] 3 6 = Inr True
   \<and> operator_ne [Object, Tuple [1 :: int], Dict [(''x'', 2)], Instance Arguments 1 2,
              Tuple [1], Dict [(''x'', 2)], Instance Subclass 4 5] 3 6 = Inr False"
  by (simp add: is_bundle_def is_subclass_instance_def lookup_def operator_eq_def
      operator_ne_def strict_subclass_def Arguments_eq_def Arguments_ne_def py_eq_def
      dict_eq_def)

text \<open>
  Claim C10, amended. The method \<^verbatim>\<open>__eq__\<close> tests that the dynamic type of its
  argument is exactly \<^verbatim>\<open>Arguments\<close>: called on anything with an instance \<open>s\<close> of a
  strict subclass as the argument it returns False, and \<^verbatim>\<open>__ne__\<close> returns True. The
  operators call the method of \<open>s\<close> with the bundle as the argument, whichever side \<open>s\<close>
  is on: \<^verbatim>\<open>b == s\<close> and \<^verbatim>\<open>s == b\<close> hold if and only if the positionals are the same
  sequence and the named items the same mapping, and \<^verbatim>\<open>b != s\<close> and \<^verbatim>\<open>s != b\<close> are the
  negation.
\<close>

theorem eq_subclass_instance_reflected:
  "(lookup h s = Some (Instance Subclass sa sk) \<longrightarrow>
      Arguments_eq h x s = Inr False \<and> Arguments_ne h x s = Inr True)
   \<and> (is_bundle h b a k P N \<and> is_subclass_instance h s sa sk Ps Ns \<longrightarrow>
      operator_eq h b s = Inr (P = Ps \<and> map_of N = map_of Ns)
      \<and> operator_ne h b s = Inr (\<not> (P = Ps \<and> map_of N = map_of Ns))
      \<and> operator_eq h s b = Inr (P = Ps \<and> map_of N = map_of Ns)
      \<and> operator_ne h s b = Inr (\<not> (P = Ps \<and> map_of N = map_of Ns)))"
proof (intro conjI impI)
  assume sub: "lookup h s = Some (Instance Subclass sa sk)"
  then show "Arguments_eq h x s = Inr False"
    by (simp add: Arguments_eq_def)
  then show "Arguments_ne h x s = Inr True"
    by (simp add: Arguments_ne_def)
next
  assume both: "is_bundle h b a k P N \<and> is_subclass_instance h s sa sk Ps Ns"
  then have bun: "is_bundle h b a k P N" and sub: "is_subclass_instance h s sa sk Ps Ns"
    by simp_all
  have at: "lookup h s = Some (Instance Subclass sa sk)"
    using sub by (simp add: is_subclass_instance_def)
  have eq: "Arguments_eq h s b = Inr (P = Ps \<and> map_of N = map_of Ns)"
    using sub bun by (rule eq_subclass_with_bundle)
  then have ne: "Arguments_ne h s b = Inr (\<not> (P = Ps \<and> map_of N = map_of Ns))"
    by (simp add: Arguments_ne_def)
  show "operator_eq h b s = Inr (P = Ps \<and> map_of N = map_of Ns)"
    using operator_with_subclass(1) [OF bun at] eq by simp
  show "operator_ne h b s = Inr (\<not> (P = Ps \<and> map_of N = map_of Ns))"
    using operator_with_subclass(2) [OF bun at] ne by simp
  show "operator_eq h s b = Inr (P = Ps \<and> map_of N = map_of Ns)"
    using operator_with_subclass(3) [OF bun at] eq by simp
  show "operator_ne h s b = Inr (\<not> (P = Ps \<and> map_of N = map_of Ns))"
    using operator_with_subclass(4) [OF bun at] ne by simp
qed

text \<open>
  The subclass instance at address 6 holds \<^verbatim>\<open>(1, x=2, y=3)\<close> in another order than the
  bundle at address 3: the method call \<^verbatim>\<open>b.__eq__(s)\<close> is False, the comparison
  \<^verbatim>\<open>b == s\<close> True.
\<close>

theorem eq_subclass_instance_reflected_witness:
  "lookup [Object, Tuple [1 :: int], Dict [(''x'', 2), (''y'', 3)], Instance Arguments 1 2,
           Tuple [1], Dict [(''y'', 3), (''x'', 2)], Instance Subclass 4 5] 6
     = Some (Instance Subclass 4 5)
   \<and> is_bundle [Object, Tuple [1 :: int], Dict [(''x'', 2), (''y'', 3)], Instance Arguments 1 2,
           Tuple [1], Dict [(''y'', 3), (''x'', 2)], Instance Subclass 4 5]
        3 1 2 [1] [(''x'', 2), (''y'', 3)]
   \<and> is_subclass_instance [Object, Tuple [1 :: int], Dict [(''x'', 2), (''y'', 3)],
           Instance Arguments 1 2, Tuple [1], Dict [(''y'', 3), (''x'', 2)], Instance Subclass 4 5]
        6 4 5 [1] [(''y'', 3), (''x'', 2)]
   \<and> Arguments_eq [Object, Tuple [1 :: int], Dict [(''x'', 2), (''y'', 3)], Instance Arguments 1 2,
           Tuple [1], Dict [(''y'', 3), (''x'', 2)], Instance Subclass 4 5] 3 6 = Inr False
   \<and> operator_eq [Object, Tuple [1 :: int], Dict [(''x'', 2), (''y'', 3)], Instance Arguments 1 2,
           Tuple [1], Dict [(''y'', 3), (''x'', 2)], Instance Subclass 4 5] 3 6 = Inr True
   \<and> operator_ne [Object, Tuple [1 :: int], Dict [(''x'', 2), (''y'', 3)], Instance Arguments 1 2,
           Tuple [1], Dict [(''y'', 3), (''x'', 2)], Instance Subclass 4 5] 3 6 = Inr False
   \<and> operator_eq [Object, Tuple [1 :: int], Dict [(''x'', 2), (''y'', 3)], Instance Arguments 1 2,
           Tuple [1], Dict [(''y'', 3), (''x'', 2)], Instance Subclass 4 5] 6 3 = Inr True"
proof -
  let ?h = "[Object, Tuple [1 :: int], Dict [(''x'', 2), (''y'', 3)], Instance Arguments 1 2,
             Tuple [1], Dict [(''y'', 3), (''x'', 2)], Instance Subclass 4 5]"
  have hyp1: "lookup ?h 6 = Some (Instance Subclass 4 5)"
    by (simp add: lookup_def)
  have hyp2: "is_bundle ?h 3 1 2 [1] [(''x'', 2), (''y'', 3)]"
    by (simp add: is_bundle_def lookup_def)
  have hyp3: "is_subclass_instance ?h 6 4 5 [1] [(''y'', 3), (''x'', 2)]"
    by (simp add: is_subclass_instance_def lookup_def)
  have same: "map_of [(''x'', 2 :: int), (''y'', 3)] = map_of [(''y'', 3), (''x'', 2)]"
    by (auto simp: fun_eq_iff)
  show ?thesis
    using hyp1 hyp2 hyp3 same
      eq_subclass_instance_reflected
        [of ?h 6 4 5 3 3 1 2 "[1]" "[(''x'', 2), (''y'', 3)]" "[1]" "[(''y'', 3), (''x'', 2)]"]
    by simp
qed

end
